theory Spec2Isabelle
  imports Complex_Main "HOL-Library.Sublist" "HOL-Library.Multiset"
begin

section \<open>JavaScript values used by the vaccine scripts\<close>

text \<open>
  The scripts read JSON records whose fields are JavaScript primitives. Numbers are
  modelled exactly: a finite number is a rational, and \<open>NaN\<close> and the two infinities are
  values of their own. Negative zero is identified with zero, and the rounding of IEEE
  doubles is not modelled; overflow of a parsed numeric literal to an infinity is. For
  a timestamp given in whole seconds within the range of \<^verbatim>\<open>Date\<close> the products and differences
  that the scripts form are integers below \<open>2^53\<close>, which doubles hold exactly.
  Strings are byte strings; the string operations act on the ASCII range.
\<close>

datatype js_num = NaN | Fin rat | PosInf | NegInf

datatype js_val = Undefined | Null | JBool bool | JNum js_num | JStr string

text \<open>Truthiness, as the test \<^verbatim>\<open>!str\<close> reads it.\<close>

fun truthy :: "js_val \<Rightarrow> bool" where
  "truthy Undefined = False"
| "truthy Null = False"
| "truthy (JBool b) = b"
| "truthy (JNum n) = (n \<noteq> NaN \<and> n \<noteq> Fin 0)"
| "truthy (JStr s) = (s \<noteq> [])"

subsection \<open>Arithmetic and comparison on numbers\<close>

fun js_sgn :: "js_num \<Rightarrow> int" where
  "js_sgn (Fin x) = (if x < 0 then - 1 else if x = 0 then 0 else 1)"
| "js_sgn PosInf = 1"
| "js_sgn NegInf = - 1"
| "js_sgn NaN = 0"

definition js_inf :: "int \<Rightarrow> js_num" where
  "js_inf s = (if s = 0 then NaN else if 0 < s then PosInf else NegInf)"

fun js_neg :: "js_num \<Rightarrow> js_num" where
  "js_neg (Fin x) = Fin (- x)"
| "js_neg PosInf = NegInf"
| "js_neg NegInf = PosInf"
| "js_neg NaN = NaN"

fun js_mul :: "js_num \<Rightarrow> js_num \<Rightarrow> js_num" where
  "js_mul NaN b = NaN"
| "js_mul a NaN = NaN"
| "js_mul (Fin x) (Fin y) = Fin (x * y)"
| "js_mul a b = js_inf (js_sgn a * js_sgn b)"

fun js_sub :: "js_num \<Rightarrow> js_num \<Rightarrow> js_num" where
  "js_sub NaN b = NaN"
| "js_sub a NaN = NaN"
| "js_sub (Fin x) (Fin y) = Fin (x - y)"
| "js_sub PosInf PosInf = NaN"
| "js_sub NegInf NegInf = NaN"
| "js_sub PosInf b = PosInf"
| "js_sub NegInf b = NegInf"
| "js_sub (Fin x) PosInf = NegInf"
| "js_sub (Fin x) NegInf = PosInf"

text \<open>Division; a zero divisor is read as positive zero.\<close>

fun js_div :: "js_num \<Rightarrow> js_num \<Rightarrow> js_num" where
  "js_div NaN b = NaN"
| "js_div a NaN = NaN"
| "js_div (Fin x) (Fin y) = (if y = 0 then js_inf (js_sgn (Fin x)) else Fin (x / y))"
| "js_div (Fin x) b = Fin 0"
| "js_div a (Fin y) = js_inf (js_sgn a * (if y < 0 then - 1 else 1))"
| "js_div a b = NaN"

fun js_lt :: "js_num \<Rightarrow> js_num \<Rightarrow> bool" where
  "js_lt (Fin x) (Fin y) = (x < y)"
| "js_lt NegInf (Fin y) = True"
| "js_lt NegInf PosInf = True"
| "js_lt (Fin x) PosInf = True"
| "js_lt a b = False"

definition js_le :: "js_num \<Rightarrow> js_num \<Rightarrow> bool" where
  "js_le a b = (js_lt a b \<or> (a = b \<and> a \<noteq> NaN))"

text \<open>\<^verbatim>\<open>Number.isFinite\<close>, \<^verbatim>\<open>Math.abs\<close>, \<^verbatim>\<open>Math.floor\<close> and \<^verbatim>\<open>Math.ceil\<close>.\<close>

fun isFinite :: "js_num \<Rightarrow> bool" where
  "isFinite (Fin x) = True"
| "isFinite a = False"

fun js_abs :: "js_num \<Rightarrow> js_num" where
  "js_abs (Fin x) = Fin \<bar>x\<bar>"
| "js_abs NaN = NaN"
| "js_abs a = PosInf"

fun js_floor :: "js_num \<Rightarrow> js_num" where
  "js_floor (Fin x) = Fin (of_int \<lfloor>x\<rfloor>)"
| "js_floor a = a"

fun js_ceil :: "js_num \<Rightarrow> js_num" where
  "js_ceil (Fin x) = Fin (of_int \<lceil>x\<rceil>)"
| "js_ceil a = a"

subsection \<open>\<^verbatim>\<open>Number(str)\<close>: the numeric value of a primitive\<close>

definition isStrWhiteSpaceChar :: "char \<Rightarrow> bool" where
  "isStrWhiteSpaceChar c =
     (c \<in> set [CHR 0x09, CHR 0x0A, CHR 0x0B, CHR 0x0C, CHR 0x0D, CHR 0x20])"

text \<open>
  Only the six ASCII white-space characters are stripped; \<^verbatim>\<open>Number\<close> also strips the white
  space and line terminators outside ASCII (such as U+00A0 and U+FEFF), which this model
  leaves in place.
\<close>

definition trimString :: "string \<Rightarrow> string" where
  "trimString s = rev (dropWhile isStrWhiteSpaceChar (rev (dropWhile isStrWhiteSpaceChar s)))"

definition decimalDigit :: "char \<Rightarrow> int option" where
  "decimalDigit = map_of
     [(CHR ''0'', 0), (CHR ''1'', 1), (CHR ''2'', 2), (CHR ''3'', 3), (CHR ''4'', 4),
      (CHR ''5'', 5), (CHR ''6'', 6), (CHR ''7'', 7), (CHR ''8'', 8), (CHR ''9'', 9)]"

definition hexDigit :: "char \<Rightarrow> int option" where
  "hexDigit c = (case decimalDigit c of Some d \<Rightarrow> Some d | None \<Rightarrow> map_of
     [(CHR ''a'', 10), (CHR ''b'', 11), (CHR ''c'', 12), (CHR ''d'', 13), (CHR ''e'', 14),
      (CHR ''f'', 15), (CHR ''A'', 10), (CHR ''B'', 11), (CHR ''C'', 12), (CHR ''D'', 13),
      (CHR ''E'', 14), (CHR ''F'', 15)] c)"

definition digitBelow :: "int \<Rightarrow> char \<Rightarrow> int option" where
  "digitBelow b c = (case decimalDigit c of Some d \<Rightarrow> (if d < b then Some d else None)
                     | None \<Rightarrow> None)"

text \<open>A non-empty run of digits of one base, as a number; \<open>None\<close> when a character is not a digit.\<close>

definition digitsValue :: "int \<Rightarrow> (char \<Rightarrow> int option) \<Rightarrow> string \<Rightarrow> int option" where
  "digitsValue b dig s =
     (case those (map dig s) of
        None \<Rightarrow> None
      | Some ds \<Rightarrow> (if ds = [] then None else Some (foldl (\<lambda>a d. b * a + d) 0 ds)))"

definition isDecimalDigit :: "char \<Rightarrow> bool" where
  "isDecimalDigit c = (decimalDigit c \<noteq> None)"

text \<open>The exponent part of a decimal literal: empty, or \<open>e\<close>/\<open>E\<close> and a signed integer.\<close>

definition exponentPart :: "string \<Rightarrow> int option" where
  "exponentPart s =
     (case s of
        [] \<Rightarrow> Some 0
      | c # r \<Rightarrow>
          (if c = CHR ''e'' \<or> c = CHR ''E'' then
             (case r of
                [] \<Rightarrow> None
              | g # ds \<Rightarrow>
                  (if g = CHR ''+'' then digitsValue 10 decimalDigit ds
                   else if g = CHR ''-'' then
                     map_option (\<lambda>n. - n) (digitsValue 10 decimalDigit ds)
                   else digitsValue 10 decimalDigit r))
           else None))"

definition scaleByPowerOfTen :: "rat \<Rightarrow> int \<Rightarrow> rat" where
  "scaleByPowerOfTen x e = (if 0 \<le> e then x * 10 ^ nat e else x / 10 ^ nat (- e))"

definition strUnsignedDecimalLiteral :: "string \<Rightarrow> js_num" where
  "strUnsignedDecimalLiteral s =
     (if s = ''Infinity'' then PosInf
      else
        let ip = takeWhile isDecimalDigit s;
            r1 = dropWhile isDecimalDigit s;
            hasDot = (case r1 of [] \<Rightarrow> False | c # r \<Rightarrow> c = CHR ''.'');
            fp = (if hasDot then takeWhile isDecimalDigit (tl r1) else []);
            r2 = (if hasDot then dropWhile isDecimalDigit (tl r1) else r1)
        in if ip = [] \<and> fp = [] then NaN
           else
             (case exponentPart r2 of
                None \<Rightarrow> NaN
              | Some e \<Rightarrow>
                  Fin (scaleByPowerOfTen
                         (of_int (foldl (\<lambda>a d. 10 * a + d) 0
                            (map (\<lambda>c. the (decimalDigit c)) (ip @ fp))))
                         (e - int (length fp)))))"

definition strDecimalLiteral :: "string \<Rightarrow> js_num" where
  "strDecimalLiteral s =
     (case s of
        [] \<Rightarrow> NaN
      | c # r \<Rightarrow>
          (if c = CHR ''+'' then strUnsignedDecimalLiteral r
           else if c = CHR ''-'' then js_neg (strUnsignedDecimalLiteral r)
           else strUnsignedDecimalLiteral s))"

definition nonDecimalIntegerLiteral :: "string \<Rightarrow> js_num option" where
  "nonDecimalIntegerLiteral s =
     (case s of
        z # p # ds \<Rightarrow>
          (if z = CHR ''0'' \<and> (p = CHR ''x'' \<or> p = CHR ''X'') then
             Some (case digitsValue 16 hexDigit ds of None \<Rightarrow> NaN | Some n \<Rightarrow> Fin (of_int n))
           else if z = CHR ''0'' \<and> (p = CHR ''o'' \<or> p = CHR ''O'') then
             Some (case digitsValue 8 (digitBelow 8) ds of None \<Rightarrow> NaN | Some n \<Rightarrow> Fin (of_int n))
           else if z = CHR ''0'' \<and> (p = CHR ''b'' \<or> p = CHR ''B'') then
             Some (case digitsValue 2 (digitBelow 2) ds of None \<Rightarrow> NaN | Some n \<Rightarrow> Fin (of_int n))
           else None)
      | _ \<Rightarrow> None)"

text \<open>A literal at or beyond \<open>2^1024 - 2^970\<close> in magnitude rounds to an infinity.\<close>

definition overflowBound :: int where
  "overflowBound = 2 ^ 1024 - 2 ^ 970"

definition overflowToInfinity :: "js_num \<Rightarrow> js_num" where
  "overflowToInfinity n =
     (case n of
        Fin x \<Rightarrow> (if of_int overflowBound \<le> x then PosInf
                  else if x \<le> - of_int overflowBound then NegInf else Fin x)
      | _ \<Rightarrow> n)"

definition stringToNumber :: "string \<Rightarrow> js_num" where
  "stringToNumber s =
     (let t = trimString s
      in if t = [] then Fin 0
         else overflowToInfinity
                (case nonDecimalIntegerLiteral t of
                   Some n \<Rightarrow> n
                 | None \<Rightarrow> strDecimalLiteral t))"

fun js_Number :: "js_val \<Rightarrow> js_num" where
  "js_Number Undefined = NaN"
| "js_Number Null = Fin 0"
| "js_Number (JBool b) = Fin (if b then 1 else 0)"
| "js_Number (JNum n) = n"
| "js_Number (JStr s) = stringToNumber s"

subsection \<open>Dates\<close>

text \<open>
  A \<^verbatim>\<open>Date\<close> object holds a time value: an integral number of milliseconds since the epoch
  within \<open>\<plusminus>8.64e15\<close>, or \<open>NaN\<close> (an invalid date). \<^verbatim>\<open>new Date(x)\<close> clips \<open>x\<close> to that range
  and truncates it towards zero. A \<^verbatim>\<open>Date\<close> object is truthy whether or not it is valid.
\<close>

datatype js_date = ValidDate int | InvalidDate

fun newDate :: "js_num \<Rightarrow> js_date" where
  "newDate (Fin x) =
     (if 8640000000000000 < \<bar>x\<bar> then InvalidDate
      else ValidDate (if 0 \<le> x then \<lfloor>x\<rfloor> else \<lceil>x\<rceil>))"
| "newDate a = InvalidDate"

fun getTime :: "js_date \<Rightarrow> js_num" where
  "getTime (ValidDate t) = Fin (of_int t)"
| "getTime InvalidDate = NaN"

text \<open>
  The system clock: \<open>clk k\<close> is the instant (milliseconds since the epoch) that the
  \<open>k\<close>-th evaluation of \<^verbatim>\<open>new Date()\<close> of a run returns. The number of readings made so far
  is threaded through every function that reads the clock.
\<close>

type_synonym clock = "nat \<Rightarrow> int"

section \<open>checkVaccines.js: helpers and date classification\<close>

definition DAYS_BEFORE_DUE :: js_num where
  "DAYS_BEFORE_DUE = Fin 30"

definition TWO_WEEKS_BEFORE_DUE :: js_num where
  "TWO_WEEKS_BEFORE_DUE = Fin 14"

text \<open>
  The product \<^verbatim>\<open>seconds * 1000\<close> is taken exactly. The code rounds it to a double before
  \<^verbatim>\<open>new Date\<close> truncates it, so for a value with a fractional part the instant of the code
  can lie a millisecond from the one here; for whole seconds within the range of \<^verbatim>\<open>Date\<close>
  the two agree.
\<close>

definition unixStringToDate :: "js_val \<Rightarrow> js_date option" where
  "unixStringToDate str =
     (if \<not> truthy str then None
      else
        let seconds = js_Number str
        in if \<not> isFinite seconds then None
           else Some (newDate (js_mul seconds (Fin 1000))))"

datatype window_status = Overdue | NeedsAttention | Upcoming | Current | Unknown

record classification =
  cls_status :: window_status
  cls_diffDays :: "js_num option"
  cls_date :: "js_date option"

definition classifyByDueWindow :: "clock \<Rightarrow> js_val \<Rightarrow> nat \<Rightarrow> classification \<times> nat" where
  "classifyByDueWindow clk scheduledForStr k =
     (case unixStringToDate scheduledForStr of
        None \<Rightarrow> (\<lparr>cls_status = Unknown, cls_diffDays = None, cls_date = None\<rparr>, k)
      | Some date \<Rightarrow>
          let now = ValidDate (clk k);
              diffMs = js_sub (getTime date) (getTime now);
              diffDays = js_div diffMs (Fin (1000 * 60 * 60 * 24))
          in ((if js_lt diffDays (Fin 0) then
                 \<lparr>cls_status = Overdue, cls_diffDays = Some diffDays, cls_date = Some date\<rparr>
               else if js_le diffDays TWO_WEEKS_BEFORE_DUE then
                 \<lparr>cls_status = NeedsAttention, cls_diffDays = Some diffDays, cls_date = Some date\<rparr>
               else if js_le diffDays DAYS_BEFORE_DUE \<and> js_lt TWO_WEEKS_BEFORE_DUE diffDays then
                 \<lparr>cls_status = Upcoming, cls_diffDays = Some diffDays, cls_date = Some date\<rparr>
               else
                 \<lparr>cls_status = Current, cls_diffDays = Some diffDays, cls_date = Some date\<rparr>),
              Suc k))"

section \<open>checkVaccines.js: the vaccine family of a product name\<close>

text \<open>
  A product name is a nullable string: \<open>None\<close> stands for \<^verbatim>\<open>null\<close> and \<^verbatim>\<open>undefined\<close>.
  \<^verbatim>\<open>toLowerCase\<close> maps the letters \<open>A\<close> to \<open>Z\<close>; \<^verbatim>\<open>p.includes(k)\<close> holds when \<open>k\<close> is a contiguous
  part of \<open>p\<close>.
\<close>

datatype vaccine_family = Rabies | Dhpp_dapp | Bordetella | Other

definition toLowerChar :: "char \<Rightarrow> char" where
  "toLowerChar c =
     (if 65 \<le> (of_char c :: nat) \<and> (of_char c :: nat) \<le> 90
      then char_of ((of_char c :: nat) + 32) else c)"

definition toLowerCase :: "string \<Rightarrow> string" where
  "toLowerCase s = map toLowerChar s"

definition js_includes :: "string \<Rightarrow> string \<Rightarrow> bool" where
  "js_includes p k = sublist k p"

definition classifyVaccineType :: "string option \<Rightarrow> vaccine_family" where
  "classifyVaccineType product =
     (let p = toLowerCase (case product of None \<Rightarrow> [] | Some s \<Rightarrow> s)
      in if js_includes p ''rabies'' \<or> js_includes p ''rabvac'' then Rabies
         else if js_includes p ''dhpp'' \<or> js_includes p ''dapp'' \<or> js_includes p ''da2pp''
                 \<or> js_includes p ''da2ppv'' \<or> js_includes p ''dappv''
                 \<or> js_includes p ''vanguard dapp'' \<or> js_includes p ''nobivac canine 1-dappv''
         then Dhpp_dapp
         else if js_includes p ''bordetella'' \<or> js_includes p ''trucan b'' then Bordetella
         else Other)"

subsection \<open>The family classifier in the words of the specification\<close>

text \<open>
  The curated keyword sets in their priority order; the family of a lower-cased name is
  the first one with a keyword that occurs in the name, and \<open>Other\<close> when none does.
\<close>

definition familyKeywords :: "(vaccine_family \<times> string list) list" where
  "familyKeywords =
     [(Rabies, [''rabies'', ''rabvac'']),
      (Dhpp_dapp, [''dhpp'', ''dapp'', ''da2pp'', ''da2ppv'', ''dappv'', ''vanguard dapp'',
                   ''nobivac canine 1-dappv'']),
      (Bordetella, [''bordetella'', ''trucan b''])]"

definition hasKeyword :: "string list \<Rightarrow> string \<Rightarrow> bool" where
  "hasKeyword ks p = list_ex (\<lambda>k. sublist k p) ks"

fun firstMatchingFamily :: "(vaccine_family \<times> string list) list \<Rightarrow> string \<Rightarrow> vaccine_family" where
  "firstMatchingFamily [] p = Other"
| "firstMatchingFamily ((f, ks) # rest) p =
     (if hasKeyword ks p then f else firstMatchingFamily rest p)"

definition productText :: "string option \<Rightarrow> string" where
  "productText product = (case product of None \<Rightarrow> [] | Some s \<Rightarrow> s)"

subsection \<open>The due windows in the words of the specification\<close>

text \<open>
  The signed fractional day offset \<open>d = (scheduledInstant - now) / (24 * 3600 * 1000)\<close> and the
  window it falls in, thresholds read in order.
\<close>

definition dayOffset :: "int \<Rightarrow> int \<Rightarrow> rat" where
  "dayOffset scheduledInstant now = (of_int scheduledInstant - of_int now) / (24 * 3600 * 1000)"

definition windowOfOffset :: "rat \<Rightarrow> window_status" where
  "windowOfOffset d =
     (if d < 0 then Overdue
      else if d \<le> 14 then NeedsAttention
      else if d \<le> 30 then Upcoming
      else Current)"



text \<open>A clock that returns the same instant at every reading.\<close>

definition fixedClock :: "int \<Rightarrow> clock" where
  "fixedClock now k = now"

section \<open>checkVaccines.js: bucketing the scheduled vaccines\<close>

text \<open>
  A raw vaccine record of a feed. Identifiers and the scheduled-for field are arbitrary
  primitives; manufacturer and lot are copied through untouched.
\<close>

record rawVaccine =
  r_id :: js_val
  r_animal_id :: js_val
  r_product :: "string option"
  r_manufacturer :: js_val
  r_lot :: js_val
  r_scheduled_for :: js_val

text \<open>
  The record the scripts build for a classified vaccine. The variant without a name
  (\<open>part_001\<close>) builds it without the \<open>status\<close> field.
\<close>

record vaccine_base =
  vaccineId :: js_val
  animalId :: js_val
  product :: "string option"
  manufacturer :: js_val
  lot :: js_val
  scheduledFor :: "js_date option"
  diffDays :: "js_num option"

record vaccine = vaccine_base +
  status :: window_status

record buckets =
  overdue :: "vaccine list"
  upcoming :: "vaccine list"
  needsAttention :: "vaccine list"
  current :: "vaccine list"
  unknown :: "vaccine list"

text \<open>The object literal built from a raw record and its classification.\<close>

definition normalizedVaccine :: "rawVaccine \<Rightarrow> classification \<Rightarrow> vaccine" where
  "normalizedVaccine v c =
     \<lparr>vaccineId = r_id v, animalId = r_animal_id v, product = r_product v,
      manufacturer = r_manufacturer v, lot = r_lot v,
      scheduledFor = cls_date c, diffDays = cls_diffDays c, status = cls_status c\<rparr>"

text \<open>
  The chain of \<^verbatim>\<open>if (status === ...) ....push(...)\<close> that ends both the bucketing loop and
  the enrichment loop of \<^verbatim>\<open>main\<close>: every status other than the four named ones goes to
  \<open>unknown\<close>.
\<close>

definition pushByStatus :: "window_status \<Rightarrow> vaccine \<Rightarrow> 'a buckets_scheme \<Rightarrow> 'a buckets_scheme" where
  "pushByStatus st x b =
     (if st = Overdue then b\<lparr>overdue := overdue b @ [x]\<rparr>
      else if st = NeedsAttention then b\<lparr>needsAttention := needsAttention b @ [x]\<rparr>
      else if st = Upcoming then b\<lparr>upcoming := upcoming b @ [x]\<rparr>
      else if st = Current then b\<lparr>current := current b @ [x]\<rparr>
      else b\<lparr>unknown := unknown b @ [x]\<rparr>)"

fun bucketLoop :: "clock \<Rightarrow> rawVaccine list \<Rightarrow> buckets \<Rightarrow> nat \<Rightarrow> buckets \<times> nat" where
  "bucketLoop clk [] b k = (b, k)"
| "bucketLoop clk (v # vs) b k =
     (case classifyByDueWindow clk (r_scheduled_for v) k of
        (c, k') \<Rightarrow> bucketLoop clk vs (pushByStatus (cls_status c) (normalizedVaccine v c) b) k')"

definition bucketScheduledVaccines :: "clock \<Rightarrow> rawVaccine list \<Rightarrow> nat \<Rightarrow> buckets \<times> nat" where
  "bucketScheduledVaccines clk vaccines k =
     bucketLoop clk vaccines
       \<lparr>overdue = [], upcoming = [], needsAttention = [], current = [], unknown = []\<rparr> k"

subsection \<open>The bucketing of the variant \<open>part_001\<close>\<close>

text \<open>
  This variant has four buckets; its chain of tests has no final \<^verbatim>\<open>else\<close>, and its records
  carry no \<open>status\<close> field.
\<close>

record buckets_part_001 =
  overdue_1 :: "vaccine_base list"
  upcoming_1 :: "vaccine_base list"
  needsAttention_1 :: "vaccine_base list"
  current_1 :: "vaccine_base list"

definition base_part_001 :: "rawVaccine \<Rightarrow> classification \<Rightarrow> vaccine_base" where
  "base_part_001 v c =
     \<lparr>vaccineId = r_id v, animalId = r_animal_id v, product = r_product v,
      manufacturer = r_manufacturer v, lot = r_lot v,
      scheduledFor = cls_date c, diffDays = cls_diffDays c\<rparr>"

fun bucketLoop_part_001 ::
  "clock \<Rightarrow> rawVaccine list \<Rightarrow> buckets_part_001 \<Rightarrow> nat \<Rightarrow> buckets_part_001 \<times> nat" where
  "bucketLoop_part_001 clk [] b k = (b, k)"
| "bucketLoop_part_001 clk (v # vs) b k =
     (case classifyByDueWindow clk (r_scheduled_for v) k of
        (c, k') \<Rightarrow>
          bucketLoop_part_001 clk vs
            (if cls_status c = Overdue then b\<lparr>overdue_1 := overdue_1 b @ [base_part_001 v c]\<rparr>
             else if cls_status c = NeedsAttention then
               b\<lparr>needsAttention_1 := needsAttention_1 b @ [base_part_001 v c]\<rparr>
             else if cls_status c = Upcoming then
               b\<lparr>upcoming_1 := upcoming_1 b @ [base_part_001 v c]\<rparr>
             else if cls_status c = Current then
               b\<lparr>current_1 := current_1 b @ [base_part_001 v c]\<rparr>
             else b)
            k')"

definition bucketScheduledVaccines_part_001 ::
  "clock \<Rightarrow> rawVaccine list \<Rightarrow> nat \<Rightarrow> buckets_part_001 \<times> nat" where
  "bucketScheduledVaccines_part_001 clk vaccines k =
     bucketLoop_part_001 clk vaccines
       \<lparr>overdue_1 = [], upcoming_1 = [], needsAttention_1 = [], current_1 = []\<rparr> k"

section \<open>checkVaccines.js: enriching a dog with its per-animal feed\<close>

text \<open>
  A dog of \<^verbatim>\<open>dogsById\<close>: its identity and the five buckets that \<^verbatim>\<open>groupVaccinesByDog\<close> filled
  from the org-wide feed.
\<close>

record dog = buckets +
  dog_animalId :: js_val
  dog_name :: string
  dog_photoUrl :: js_val

text \<open>The five buckets in the order in which the scripts concatenate them.\<close>

definition allVaccines :: "'a buckets_scheme \<Rightarrow> vaccine list" where
  "allVaccines d = overdue d @ needsAttention d @ upcoming d @ current d @ unknown d"

text \<open>
  The body of the loop over \<^verbatim>\<open>perAnimalVaccines\<close> (the result of the per-animal fetch, here an
  argument): a record whose id is known is skipped; any other is classified, pushed and
  its id added to the known ids.
\<close>

fun enrichLoop ::
  "clock \<Rightarrow> rawVaccine list \<Rightarrow> dog \<Rightarrow> js_val set \<Rightarrow> nat \<Rightarrow> dog \<times> js_val set \<times> nat" where
  "enrichLoop clk [] d knownIds k = (d, knownIds, k)"
| "enrichLoop clk (v # vs) d knownIds k =
     (if r_id v \<in> knownIds then enrichLoop clk vs d knownIds k
      else
        (case classifyByDueWindow clk (r_scheduled_for v) k of
           (c, k') \<Rightarrow>
             enrichLoop clk vs (pushByStatus (cls_status c) (normalizedVaccine v c) d)
               (insert (r_id v) knownIds) k'))"

definition enrichDog :: "clock \<Rightarrow> rawVaccine list \<Rightarrow> dog \<Rightarrow> nat \<Rightarrow> dog \<times> nat" where
  "enrichDog clk perAnimalVaccines d k =
     (case enrichLoop clk perAnimalVaccines d (set (map vaccineId (allVaccines d))) k of
        (d', knownIds', k') \<Rightarrow> (d', k'))"

section \<open>checkVaccines.js: the status line of a core vaccine family\<close>

text \<open>
  The part of \<^verbatim>\<open>buildSlackPayloadForDog\<close> that, for one core family, picks the soonest scheduled
  vaccine of the dog and words its status. A text is kept as the pieces of its template:
  literal characters, a number converted to a string, and a date string. The date
  strings are not spelled out: the first ten characters of \<^verbatim>\<open>toISOString()\<close>, the local
  \<open>M/D/YYYY\<close> form of \<^verbatim>\<open>formatDate\<close>, or the words \<^verbatim>\<open>unknown date\<close>.
\<close>

datatype js_error = TypeError | RangeError

datatype date_text = UnknownDate | IsoDay int | LocalDay int

datatype piece = Lit string | NumStr js_num | DateStr date_text

datatype status_key = K_overdue | K_needsAttention | K_upcoming | K_current | K_none | K_unknown

definition enDash :: string where
  "enDash = [CHR 0xE2, CHR 0x80, CHR 0x93]"

text \<open>\<^verbatim>\<open>a.scheduledFor ? a.scheduledFor.getTime() : Infinity\<close> and the callback of \<^verbatim>\<open>reduce\<close>.\<close>

definition scheduledTime :: "vaccine \<Rightarrow> js_num" where
  "scheduledTime a = (case scheduledFor a of None \<Rightarrow> PosInf | Some date \<Rightarrow> getTime date)"

definition sooner :: "vaccine \<Rightarrow> vaccine \<Rightarrow> vaccine" where
  "sooner a b =
     (let aTime = scheduledTime a; bTime = scheduledTime b
      in if js_lt bTime aTime then b else a)"

definition vaccinesForType :: "'a buckets_scheme \<Rightarrow> vaccine_family \<Rightarrow> vaccine list" where
  "vaccinesForType d key = [v \<leftarrow> allVaccines d. classifyVaccineType (product v) = key]"

text \<open>
  \<^verbatim>\<open>reduce\<close> without an initial value, called only on a non-empty array, folds from the first
  element; \<open>None\<close> stands for the branch taken when the family has no scheduled vaccine.
\<close>

definition soonestForType :: "'a buckets_scheme \<Rightarrow> vaccine_family \<Rightarrow> vaccine option" where
  "soonestForType d key =
     (case vaccinesForType d key of
        [] \<Rightarrow> None
      | a # rest \<Rightarrow> Some (foldl sooner a rest))"

text \<open>The date string of checkVaccines.js; \<^verbatim>\<open>toISOString\<close> raises on an invalid date.\<close>

definition isoDateStr :: "js_date option \<Rightarrow> js_error + date_text" where
  "isoDateStr d =
     (case d of
        None \<Rightarrow> Inr UnknownDate
      | Some InvalidDate \<Rightarrow> Inl RangeError
      | Some (ValidDate t) \<Rightarrow> Inr (IsoDay t))"

text \<open>The two wordings of a day count: \<^verbatim>\<open> (N day(s) overdue)\<close> and \<^verbatim>\<open> (in N day(s))\<close>.\<close>

definition overdueExtra :: "js_num option \<Rightarrow> piece list" where
  "overdueExtra daysAgo =
     (case daysAgo of
        Some n \<Rightarrow> [Lit '' ('', NumStr n, Lit '' day'', Lit (if n = Fin 1 then [] else ''s''),
                   Lit '' overdue)'']
      | None \<Rightarrow> [])"

definition aheadExtra :: "js_num option \<Rightarrow> piece list" where
  "aheadExtra days =
     (case days of
        Some n \<Rightarrow> [Lit '' (in '', NumStr n, Lit '' day'', Lit (if n = Fin 1 then [] else ''s''),
                   Lit '')'']
      | None \<Rightarrow> [])"

definition soonestStatus :: "vaccine \<Rightarrow> js_error + status_key \<times> piece list" where
  "soonestStatus soonest =
     (case isoDateStr (scheduledFor soonest) of
        Inl e \<Rightarrow> Inl e
      | Inr dateStr \<Rightarrow>
          Inr (if status soonest = Overdue then
                 (K_overdue,
                  [Lit ''*Overdue*'']
                  @ overdueExtra (map_option (\<lambda>x. js_floor (js_abs x)) (diffDays soonest))
                  @ [Lit '' '', Lit enDash, Lit '' '', DateStr dateStr])
               else if status soonest = NeedsAttention then
                 (K_needsAttention,
                  [Lit ''*Due soon*'']
                  @ aheadExtra (map_option js_ceil (diffDays soonest))
                  @ [Lit '' '', Lit enDash, Lit '' *'', DateStr dateStr, Lit ''*''])
               else if status soonest = Upcoming then
                 (K_upcoming,
                  [Lit ''*Upcoming*'']
                  @ aheadExtra (map_option js_ceil (diffDays soonest))
                  @ [Lit '' '', Lit enDash, Lit '' *'', DateStr dateStr, Lit ''*''])
               else if status soonest = Current then
                 (K_current,
                  [Lit ''Due'']
                  @ aheadExtra (map_option js_ceil (diffDays soonest))
                  @ [Lit '' '', Lit enDash, Lit '' '', DateStr dateStr])
               else (K_unknown, [Lit ''*Date unknown* '', Lit enDash])))"

definition coreTypeStatus ::
  "'a buckets_scheme \<Rightarrow> vaccine_family \<Rightarrow> string \<Rightarrow> js_error + status_key \<times> piece list" where
  "coreTypeStatus d key label =
     (case soonestForType d key of
        None \<Rightarrow> Inr (K_none, [Lit ''_no '', Lit (toLowerCase label), Lit '' vaccination record''])
      | Some soonest \<Rightarrow> soonestStatus soonest)"

subsection \<open>The wording of the next dose in the variant \<open>part_000\<close>\<close>

definition formatDate :: "js_date option \<Rightarrow> date_text" where
  "formatDate date =
     (case date of
        None \<Rightarrow> UnknownDate
      | Some InvalidDate \<Rightarrow> UnknownDate
      | Some (ValidDate t) \<Rightarrow> LocalDay t)"

definition overdueExtra_part_000 :: "js_num option \<Rightarrow> piece list" where
  "overdueExtra_part_000 daysAgo =
     (case daysAgo of
        Some n \<Rightarrow> [NumStr n, Lit '' day'', Lit (if n = Fin 1 then [] else ''s''), Lit '' overdue'']
      | None \<Rightarrow> [Lit ''Overdue''])"

definition aheadExtra_part_000 :: "js_num option \<Rightarrow> string \<Rightarrow> piece list" where
  "aheadExtra_part_000 days fallback =
     (case days of
        Some n \<Rightarrow> [Lit ''in '', NumStr n, Lit '' day'', Lit (if n = Fin 1 then [] else ''s'')]
      | None \<Rightarrow> [Lit fallback])"

definition nextDose_part_000 :: "vaccine \<Rightarrow> status_key \<times> piece list" where
  "nextDose_part_000 soonest =
     (let dateStr = formatDate (scheduledFor soonest)
      in if status soonest = Overdue then
           (K_overdue,
            [Lit ''Next dose: *'']
            @ overdueExtra_part_000 (map_option (\<lambda>x. js_floor (js_abs x)) (diffDays soonest))
            @ [Lit ''* '', Lit enDash, Lit '' '', DateStr dateStr])
         else if status soonest = NeedsAttention then
           (K_needsAttention,
            [Lit ''Next dose: *'']
            @ aheadExtra_part_000 (map_option js_ceil (diffDays soonest)) ''due soon''
            @ [Lit ''* '', Lit enDash, Lit '' '', DateStr dateStr])
         else if status soonest = Upcoming then
           (K_upcoming,
            [Lit ''Next dose: *'']
            @ aheadExtra_part_000 (map_option js_ceil (diffDays soonest)) ''upcoming''
            @ [Lit ''* '', Lit enDash, Lit '' '', DateStr dateStr])
         else if status soonest = Current then
           (K_current,
            [Lit ''Next dose: '']
            @ aheadExtra_part_000 (map_option js_ceil (diffDays soonest)) ''scheduled''
            @ [Lit '' '', Lit enDash, Lit '' '', DateStr dateStr])
         else (K_unknown, [Lit ''Next dose date unknown'']))"

text \<open>The numbers that a text shows.\<close>

fun renderedCounts :: "piece list \<Rightarrow> js_num list" where
  "renderedCounts [] = []"
| "renderedCounts (NumStr n # ps) = n # renderedCounts ps"
| "renderedCounts (p # ps) = renderedCounts ps"

section \<open>Helper views of the loops, and the inputs of the examples\<close>

text \<open>The classified records of a feed in feed order, each made at its own clock reading.\<close>

fun classifyEach :: "clock \<Rightarrow> rawVaccine list \<Rightarrow> nat \<Rightarrow> vaccine list" where
  "classifyEach clk [] k = []"
| "classifyEach clk (v # vs) k =
     (case classifyByDueWindow clk (r_scheduled_for v) k of
        (c, k') \<Rightarrow> normalizedVaccine v c # classifyEach clk vs k')"

text \<open>The records that the enrichment loop adds, in feed order.\<close>

fun enrichEach :: "clock \<Rightarrow> rawVaccine list \<Rightarrow> js_val set \<Rightarrow> nat \<Rightarrow> vaccine list" where
  "enrichEach clk [] knownIds k = []"
| "enrichEach clk (v # vs) knownIds k =
     (if r_id v \<in> knownIds then enrichEach clk vs knownIds k
      else
        (case classifyByDueWindow clk (r_scheduled_for v) k of
           (c, k') \<Rightarrow> normalizedVaccine v c # enrichEach clk vs (insert (r_id v) knownIds) k'))"

definition rawOf :: "js_val \<Rightarrow> string option \<Rightarrow> js_val \<Rightarrow> rawVaccine" where
  "rawOf i p sf = \<lparr>r_id = i, r_animal_id = JStr ''42'', r_product = p, r_manufacturer = Null,
                   r_lot = Null, r_scheduled_for = sf\<rparr>"

text \<open>A clock that starts one second after the epoch and advances by a millisecond per reading.\<close>

definition tickingClock :: clock where
  "tickingClock k = 1000 + int k"

definition doseA :: rawVaccine where
  "doseA = rawOf (JNum (Fin 1)) (Some ''Rabies'') (JStr ''1'')"

definition doseB :: rawVaccine where
  "doseB = rawOf (JNum (Fin 2)) (Some ''Rabies'') (JStr ''1'')"

definition undatedDose :: rawVaccine where
  "undatedDose = rawOf (JNum (Fin 3)) (Some ''Bordetella'') Undefined"

text \<open>
  The selection of the rollup in the words of the specification: \<open>r\<close> is the first record
  of the candidates with the smallest scheduled-for time, a missing date counting as
  \<open>+infinity\<close>.
\<close>

definition firstMinimum :: "vaccine \<Rightarrow> vaccine list \<Rightarrow> bool" where
  "firstMinimum r vs =
     (\<exists>pre post. vs = pre @ r # post
        \<and> list_all (\<lambda>v. js_lt (scheduledTime r) (scheduledTime v)) pre
        \<and> list_all (\<lambda>v. \<not> js_lt (scheduledTime v) (scheduledTime r)) post)"

text \<open>
  Two rabies doses of one dog: one scheduled \<open>9e12\<close> seconds after the epoch, beyond the
  range of \<^verbatim>\<open>Date\<close>, and one scheduled for February 2026.
\<close>

definition farDose :: rawVaccine where
  "farDose = rawOf (JNum (Fin 4)) (Some ''Rabies'') (JStr ''9000000000000'')"

definition febDose :: rawVaccine where
  "febDose = rawOf (JNum (Fin 5)) (Some ''Rabies'') (JStr ''1770000000'')"

definition twoWeekDose :: rawVaccine where
  "twoWeekDose = rawOf (JNum (Fin 6)) (Some ''DHPP'') (JStr ''1209600'')"

text \<open>A dog with one overdue rabies record from the org-wide feed, and a per-animal feed.\<close>

definition rabiesA :: vaccine where
  "rabiesA =
     \<lparr>vaccineId = JNum (Fin 1), animalId = JStr ''42'', product = Some ''Rabies'',
      manufacturer = Null, lot = Null, scheduledFor = Some (ValidDate 0),
      diffDays = Some (Fin (- 1)), status = Overdue\<rparr>"

definition rico :: dog where
  "rico =
     \<lparr>overdue = [rabiesA], upcoming = [], needsAttention = [], current = [], unknown = [],
      dog_animalId = JStr ''42'', dog_name = ''Rico'', dog_photoUrl = Null\<rparr>"

definition feedB :: "rawVaccine list" where
  "feedB = [rawOf (JNum (Fin 1)) (Some ''DHPP'') (JStr ''99999999999''), undatedDose]"

section \<open>Properties of the date classification\<close>

lemma unixStringToDate_None_iff:
  "unixStringToDate str = None \<longleftrightarrow> \<not> truthy str \<or> \<not> isFinite (js_Number str)"
  by (simp add: unixStringToDate_def Let_def)

lemma classify_valid:
  assumes "unixStringToDate s = Some (ValidDate t)"
  shows "classifyByDueWindow clk s k =
     (\<lparr>cls_status = windowOfOffset (dayOffset t (clk k)),
       cls_diffDays = Some (Fin (dayOffset t (clk k))),
       cls_date = Some (ValidDate t)\<rparr>, Suc k)"
  using assms
  by (simp add: classifyByDueWindow_def Let_def js_le_def TWO_WEEKS_BEFORE_DUE_def
      DAYS_BEFORE_DUE_def dayOffset_def windowOfOffset_def)


lemma classify_none:
  assumes "unixStringToDate s = None"
  shows "classifyByDueWindow clk s k =
     (\<lparr>cls_status = Unknown, cls_diffDays = None, cls_date = None\<rparr>, k)"
  using assms by (simp add: classifyByDueWindow_def)



lemma date_of_0: "unixStringToDate (JStr ''0'') = Some (ValidDate 0)"
  by code_simp

lemma number_of_abc: "stringToNumber ''abc'' = NaN"
  by code_simp







text \<open>
  C4. A scheduled-for value that is missing (\<^verbatim>\<open>undefined\<close> or \<^verbatim>\<open>null\<close>), the empty string, or
  a value whose numeric conversion is not finite is classified as unknown, with a null
  day offset and a null date. The classifier returns this record as its ordinary result;
  it has no failing branch, and it does not read the clock on this path.
\<close>

theorem C4_unparseable_is_unknown:
  assumes "scheduledForStr = Undefined \<or> scheduledForStr = Null \<or> scheduledForStr = JStr []
           \<or> \<not> isFinite (js_Number scheduledForStr)"
  shows "unixStringToDate scheduledForStr = None
       \<and> classifyByDueWindow clk scheduledForStr k =
           (\<lparr>cls_status = Unknown, cls_diffDays = None, cls_date = None\<rparr>, k)"
proof -
  from assms have "\<not> truthy scheduledForStr \<or> \<not> isFinite (js_Number scheduledForStr)"
    by auto
  then have "unixStringToDate scheduledForStr = None"
    by (simp add: unixStringToDate_None_iff)
  then show ?thesis
    by (simp add: classify_none)
qed

theorem C4_witness:
  "\<not> isFinite (js_Number (JStr ''abc''))
   \<and> classifyByDueWindow (fixedClock 5) (JStr ''abc'') 0 =
       (\<lparr>cls_status = Unknown, cls_diffDays = None, cls_date = None\<rparr>, 0)
   \<and> classifyByDueWindow (fixedClock 5) Undefined 0 =
       (\<lparr>cls_status = Unknown, cls_diffDays = None, cls_date = None\<rparr>, 0)
   \<and> classifyByDueWindow (fixedClock 5) (JStr []) 0 =
       (\<lparr>cls_status = Unknown, cls_diffDays = None, cls_date = None\<rparr>, 0)"
  using C4_unparseable_is_unknown [of "JStr ''abc''" "fixedClock 5" 0]
    C4_unparseable_is_unknown [of Undefined "fixedClock 5" 0]
    C4_unparseable_is_unknown [of "JStr []" "fixedClock 5" 0]
  by (simp add: number_of_abc)

text \<open>
  C10. The decoder tells its inputs apart by truthiness and finiteness only: it returns
  null exactly when the input is falsy or its numeric conversion is not finite. Every
  falsy input (among them \<^verbatim>\<open>undefined\<close>, the empty string and the number \<open>0\<close>) gives null,
  and the record is classified as unknown. The string \<^verbatim>\<open>"0"\<close> is truthy and resolves to the
  epoch, so it is classified as overdue at every clock reading after the epoch.
\<close>

theorem C10_decoder_truthiness_and_finiteness:
  "(unixStringToDate str = None \<longleftrightarrow> \<not> truthy str \<or> \<not> isFinite (js_Number str))
   \<and> (\<not> truthy str \<longrightarrow>
        unixStringToDate str = None
        \<and> cls_status (fst (classifyByDueWindow clk str k)) = Unknown)
   \<and> \<not> truthy Undefined \<and> \<not> truthy Null \<and> \<not> truthy (JStr []) \<and> \<not> truthy (JNum (Fin 0))
   \<and> unixStringToDate (JStr ''0'') = Some (ValidDate 0)
   \<and> (0 < clk k \<longrightarrow> cls_status (fst (classifyByDueWindow clk (JStr ''0'') k)) = Overdue)"
  by (simp add: unixStringToDate_None_iff [of str] classify_none date_of_0
      classify_valid [OF date_of_0] windowOfOffset_def dayOffset_def)

theorem C10_witness:
  "\<not> truthy (JNum (Fin 0))
   \<and> unixStringToDate (JNum (Fin 0)) = None
   \<and> cls_status (fst (classifyByDueWindow (fixedClock 1764576000000) (JNum (Fin 0)) 0)) = Unknown
   \<and> 0 < fixedClock 1764576000000 0
   \<and> cls_status (fst (classifyByDueWindow (fixedClock 1764576000000) (JStr ''0'') 0)) = Overdue"
  using C10_decoder_truthiness_and_finiteness [of "JNum (Fin 0)" "fixedClock 1764576000000" 0]
  by (simp add: fixedClock_def)

section \<open>Properties of the family classifier\<close>

lemma classifyVaccineType_refines:
  "classifyVaccineType productName = firstMatchingFamily familyKeywords (toLowerCase (productText productName))"
  by (simp add: classifyVaccineType_def familyKeywords_def hasKeyword_def js_includes_def
      productText_def Let_def)

lemma lower_rabies_dhpp: "toLowerCase ''Rabvac 3 Rabies + DHPP'' = ''rabvac 3 rabies + dhpp''"
  by code_simp

lemma kw_rabies_dhpp:
  "hasKeyword [''rabies'', ''rabvac''] ''rabvac 3 rabies + dhpp''"
  "hasKeyword [''dhpp'', ''dapp'', ''da2pp'', ''da2ppv'', ''dappv'', ''vanguard dapp'',
               ''nobivac canine 1-dappv''] ''rabvac 3 rabies + dhpp''"
  by code_simp+

text \<open>The product names that the specification lists, and one with keywords of two families.\<close>

lemma classifyVaccineType_examples:
  "classifyVaccineType (Some ''Rabvac 3 Rabies'') = Rabies"
  "classifyVaccineType (Some ''Vanguard DAPPv'') = Dhpp_dapp"
  "classifyVaccineType (Some ''Bordetella/TruCan B'') = Bordetella"
  "classifyVaccineType (Some ''Heartworm preventive'') = Other"
  "classifyVaccineType (Some ''Nobivac Canine 1-DAPPv + Bordetella'') = Dhpp_dapp"
  by code_simp+

text \<open>
  C5. On nullable strings the family classifier is a total function with no failing
  branch. Its result is the first family, in the order rabies, dhpp_dapp, bordetella,
  one of whose keywords occurs in the lower-cased name, and other when no keyword
  occurs: a name with a rabies keyword is rabies whatever else it contains, a name with
  a dhpp_dapp keyword and no rabies keyword is dhpp_dapp, and so on. Null and the empty
  name are other.
\<close>

theorem C5_family_classifier_total_and_ordered:
  "classifyVaccineType productName =
     firstMatchingFamily familyKeywords (toLowerCase (productText productName))
   \<and> (hasKeyword [''rabies'', ''rabvac''] (toLowerCase (productText productName)) \<longrightarrow>
        classifyVaccineType productName = Rabies)
   \<and> (\<not> hasKeyword [''rabies'', ''rabvac''] (toLowerCase (productText productName))
        \<and> hasKeyword [''dhpp'', ''dapp'', ''da2pp'', ''da2ppv'', ''dappv'', ''vanguard dapp'',
                       ''nobivac canine 1-dappv''] (toLowerCase (productText productName)) \<longrightarrow>
        classifyVaccineType productName = Dhpp_dapp)
   \<and> (\<not> hasKeyword [''rabies'', ''rabvac''] (toLowerCase (productText productName))
        \<and> \<not> hasKeyword [''dhpp'', ''dapp'', ''da2pp'', ''da2ppv'', ''dappv'', ''vanguard dapp'',
                         ''nobivac canine 1-dappv''] (toLowerCase (productText productName))
        \<and> hasKeyword [''bordetella'', ''trucan b''] (toLowerCase (productText productName)) \<longrightarrow>
        classifyVaccineType productName = Bordetella)
   \<and> (\<not> hasKeyword [''rabies'', ''rabvac''] (toLowerCase (productText productName))
        \<and> \<not> hasKeyword [''dhpp'', ''dapp'', ''da2pp'', ''da2ppv'', ''dappv'', ''vanguard dapp'',
                         ''nobivac canine 1-dappv''] (toLowerCase (productText productName))
        \<and> \<not> hasKeyword [''bordetella'', ''trucan b''] (toLowerCase (productText productName)) \<longrightarrow>
        classifyVaccineType productName = Other)
   \<and> classifyVaccineType None = Other
   \<and> classifyVaccineType (Some []) = Other"
proof -
  let ?p = "toLowerCase (productText productName)"
  have refines: "classifyVaccineType productName = firstMatchingFamily familyKeywords ?p"
    by (rule classifyVaccineType_refines)
  have rabies: "hasKeyword [''rabies'', ''rabvac''] ?p \<longrightarrow> classifyVaccineType productName = Rabies"
    by (simp add: classifyVaccineType_refines familyKeywords_def)
  have dhpp: "\<not> hasKeyword [''rabies'', ''rabvac''] ?p
        \<and> hasKeyword [''dhpp'', ''dapp'', ''da2pp'', ''da2ppv'', ''dappv'', ''vanguard dapp'',
                       ''nobivac canine 1-dappv''] ?p \<longrightarrow>
        classifyVaccineType productName = Dhpp_dapp"
    by (simp add: classifyVaccineType_refines familyKeywords_def)
  have bordetella: "\<not> hasKeyword [''rabies'', ''rabvac''] ?p
        \<and> \<not> hasKeyword [''dhpp'', ''dapp'', ''da2pp'', ''da2ppv'', ''dappv'', ''vanguard dapp'',
                         ''nobivac canine 1-dappv''] ?p
        \<and> hasKeyword [''bordetella'', ''trucan b''] ?p \<longrightarrow>
        classifyVaccineType productName = Bordetella"
    by (simp add: classifyVaccineType_refines familyKeywords_def)
  have other: "\<not> hasKeyword [''rabies'', ''rabvac''] ?p
        \<and> \<not> hasKeyword [''dhpp'', ''dapp'', ''da2pp'', ''da2ppv'', ''dappv'', ''vanguard dapp'',
                         ''nobivac canine 1-dappv''] ?p
        \<and> \<not> hasKeyword [''bordetella'', ''trucan b''] ?p \<longrightarrow>
        classifyVaccineType productName = Other"
    by (simp add: classifyVaccineType_refines familyKeywords_def)
  have empty: "classifyVaccineType None = Other" "classifyVaccineType (Some []) = Other"
    by (simp_all add: classifyVaccineType_def toLowerCase_def js_includes_def)
  from refines rabies dhpp bordetella other empty show ?thesis
    by blast
qed

theorem C5_witness:
  "hasKeyword [''rabies'', ''rabvac''] (toLowerCase (productText (Some ''Rabvac 3 Rabies + DHPP'')))
   \<and> hasKeyword [''dhpp'', ''dapp'', ''da2pp'', ''da2ppv'', ''dappv'', ''vanguard dapp'',
                  ''nobivac canine 1-dappv'']
        (toLowerCase (productText (Some ''Rabvac 3 Rabies + DHPP'')))
   \<and> classifyVaccineType (Some ''Rabvac 3 Rabies + DHPP'') = Rabies"
  using C5_family_classifier_total_and_ordered
          [of "Some ''Rabvac 3 Rabies + DHPP''", THEN conjunct2, THEN conjunct1]
  by (simp add: productText_def lower_rabies_dhpp kw_rabies_dhpp)

section \<open>Properties of the bucketing loop\<close>

lemma status_normalized [simp]: "status (normalizedVaccine v c) = cls_status c"
  and vaccineId_normalized [simp]: "vaccineId (normalizedVaccine v c) = r_id v"
  by (simp_all add: normalizedVaccine_def)

lemma pushByStatus_fields:
  "overdue (pushByStatus st x b) = overdue b @ [y \<leftarrow> [x]. st = Overdue]"
  "needsAttention (pushByStatus st x b) = needsAttention b @ [y \<leftarrow> [x]. st = NeedsAttention]"
  "upcoming (pushByStatus st x b) = upcoming b @ [y \<leftarrow> [x]. st = Upcoming]"
  "current (pushByStatus st x b) = current b @ [y \<leftarrow> [x]. st = Current]"
  "unknown (pushByStatus st x b) = unknown b @ [y \<leftarrow> [x]. st = Unknown]"
  by (cases st; simp add: pushByStatus_def)+

lemma pushByStatus_more [simp]: "buckets.more (pushByStatus st x b) = buckets.more b"
  by (simp add: pushByStatus_def)

lemma bucketLoop_fields:
  "overdue (fst (bucketLoop clk vs b k)) = overdue b @ [x \<leftarrow> classifyEach clk vs k. status x = Overdue]"
  "needsAttention (fst (bucketLoop clk vs b k)) = needsAttention b @ [x \<leftarrow> classifyEach clk vs k. status x = NeedsAttention]"
  "upcoming (fst (bucketLoop clk vs b k)) = upcoming b @ [x \<leftarrow> classifyEach clk vs k. status x = Upcoming]"
  "current (fst (bucketLoop clk vs b k)) = current b @ [x \<leftarrow> classifyEach clk vs k. status x = Current]"
  "unknown (fst (bucketLoop clk vs b k)) = unknown b @ [x \<leftarrow> classifyEach clk vs k. status x = Unknown]"
  by (induction vs arbitrary: b k; simp add: pushByStatus_fields split: prod.splits)+

lemma enrichLoop_fields:
  "overdue (fst (enrichLoop clk vs d K k)) = overdue d @ [x \<leftarrow> enrichEach clk vs K k. status x = Overdue]"
  "needsAttention (fst (enrichLoop clk vs d K k)) = needsAttention d @ [x \<leftarrow> enrichEach clk vs K k. status x = NeedsAttention]"
  "upcoming (fst (enrichLoop clk vs d K k)) = upcoming d @ [x \<leftarrow> enrichEach clk vs K k. status x = Upcoming]"
  "current (fst (enrichLoop clk vs d K k)) = current d @ [x \<leftarrow> enrichEach clk vs K k. status x = Current]"
  "unknown (fst (enrichLoop clk vs d K k)) = unknown d @ [x \<leftarrow> enrichEach clk vs K k. status x = Unknown]"
  "buckets.more (fst (enrichLoop clk vs d K k)) = buckets.more d"
  by (induction vs arbitrary: d K k; simp add: pushByStatus_fields split: prod.splits)+

lemma mset_by_status:
  "mset [x \<leftarrow> xs. status x = Overdue] + mset [x \<leftarrow> xs. status x = NeedsAttention]
   + mset [x \<leftarrow> xs. status x = Upcoming] + mset [x \<leftarrow> xs. status x = Current]
   + mset [x \<leftarrow> xs. status x = Unknown] = mset xs"
proof (induction xs)
  case Nil
  show ?case by simp
next
  case (Cons a xs)
  then show ?case by (cases "status a") simp_all
qed

lemma mset_allVaccines_split:
  "mset (allVaccines b) = mset (overdue b) + mset (needsAttention b) + mset (upcoming b)
     + mset (current b) + mset (unknown b)"
  by (simp add: allVaccines_def)

lemma bucketScheduledVaccines_fields:
  "overdue (fst (bucketScheduledVaccines clk vs k)) = [x \<leftarrow> classifyEach clk vs k. status x = Overdue]"
  "needsAttention (fst (bucketScheduledVaccines clk vs k)) = [x \<leftarrow> classifyEach clk vs k. status x = NeedsAttention]"
  "upcoming (fst (bucketScheduledVaccines clk vs k)) = [x \<leftarrow> classifyEach clk vs k. status x = Upcoming]"
  "current (fst (bucketScheduledVaccines clk vs k)) = [x \<leftarrow> classifyEach clk vs k. status x = Current]"
  "unknown (fst (bucketScheduledVaccines clk vs k)) = [x \<leftarrow> classifyEach clk vs k. status x = Unknown]"
  by (simp_all add: bucketScheduledVaccines_def bucketLoop_fields)

lemma classifyEach_ids: "map vaccineId (classifyEach clk vs k) = map r_id vs"
  by (induction vs arbitrary: k) (simp_all split: prod.splits)

lemma bucketScheduledVaccines_partition:
  "mset (allVaccines (fst (bucketScheduledVaccines clk vs k))) = mset (classifyEach clk vs k)"
  unfolding mset_allVaccines_split bucketScheduledVaccines_fields by (rule mset_by_status)

lemma classify_fixedClock:
  assumes "\<And>j. clk j = now"
  shows "fst (classifyByDueWindow clk s k) = fst (classifyByDueWindow (fixedClock now) s 0)"
  using assms by (simp add: classifyByDueWindow_def fixedClock_def Let_def split: option.splits)

text \<open>A call depends on the clock only through the reading it makes itself.\<close>

lemma classify_own_reading:
  assumes "clk k = clk' k'"
  shows "fst (classifyByDueWindow clk s k) = fst (classifyByDueWindow clk' s k')"
  using assms by (simp add: classifyByDueWindow_def Let_def split: option.splits)

lemma classifyEach_fixedClock:
  assumes "\<And>j. clk j = now"
  shows "classifyEach clk vs k =
         map (\<lambda>v. normalizedVaccine v (fst (classifyByDueWindow (fixedClock now) (r_scheduled_for v) 0))) vs"
proof (induction vs arbitrary: k)
  case Nil
  show ?case by simp
next
  case (Cons v vs)
  obtain c k' where ck: "classifyByDueWindow clk (r_scheduled_for v) k = (c, k')"
    by (cases "classifyByDueWindow clk (r_scheduled_for v) k")
  with classify_fixedClock [where clk = clk and now = now and s = "r_scheduled_for v" and k = k] assms
  have "c = fst (classifyByDueWindow (fixedClock now) (r_scheduled_for v) 0)" by simp
  with ck Cons.IH [of k'] show ?case by simp
qed

lemma bucket_fixedClock:
  assumes "\<And>j. clk j = now"
  shows "overdue (fst (bucketScheduledVaccines clk vs k)) =
           [x \<leftarrow> map (\<lambda>v. normalizedVaccine v (fst (classifyByDueWindow (fixedClock now) (r_scheduled_for v) 0))) vs. status x = Overdue]"
    and "needsAttention (fst (bucketScheduledVaccines clk vs k)) =
           [x \<leftarrow> map (\<lambda>v. normalizedVaccine v (fst (classifyByDueWindow (fixedClock now) (r_scheduled_for v) 0))) vs. status x = NeedsAttention]"
    and "upcoming (fst (bucketScheduledVaccines clk vs k)) =
           [x \<leftarrow> map (\<lambda>v. normalizedVaccine v (fst (classifyByDueWindow (fixedClock now) (r_scheduled_for v) 0))) vs. status x = Upcoming]"
    and "current (fst (bucketScheduledVaccines clk vs k)) =
           [x \<leftarrow> map (\<lambda>v. normalizedVaccine v (fst (classifyByDueWindow (fixedClock now) (r_scheduled_for v) 0))) vs. status x = Current]"
    and "unknown (fst (bucketScheduledVaccines clk vs k)) =
           [x \<leftarrow> map (\<lambda>v. normalizedVaccine v (fst (classifyByDueWindow (fixedClock now) (r_scheduled_for v) 0))) vs. status x = Unknown]"
  by (simp_all only: bucketScheduledVaccines_fields classifyEach_fixedClock [OF assms])

text \<open>
  The bucketing of checkVaccines.js (and of the variant \<open>part_000\<close>, which has the same loop)
  partitions its input: the five buckets together hold exactly the classified records
  of the feed, one per input record, and each bucket holds the records of its status.
\<close>

lemma bucketScheduledVaccines_partitions_input:
  "mset (allVaccines (fst (bucketScheduledVaccines clk vs k))) = mset (classifyEach clk vs k)
   \<and> map vaccineId (classifyEach clk vs k) = map r_id vs
   \<and> list_all (\<lambda>x. status x = Overdue) (overdue (fst (bucketScheduledVaccines clk vs k)))
   \<and> list_all (\<lambda>x. status x = NeedsAttention) (needsAttention (fst (bucketScheduledVaccines clk vs k)))
   \<and> list_all (\<lambda>x. status x = Upcoming) (upcoming (fst (bucketScheduledVaccines clk vs k)))
   \<and> list_all (\<lambda>x. status x = Current) (current (fst (bucketScheduledVaccines clk vs k)))
   \<and> list_all (\<lambda>x. status x = Unknown) (unknown (fst (bucketScheduledVaccines clk vs k)))"
  by (simp add: bucketScheduledVaccines_partition classifyEach_ids
      bucketScheduledVaccines_fields list_all_iff)

text \<open>
  C9. The bucketing of the variant \<open>part_001\<close> has four buckets and no final \<^verbatim>\<open>else\<close>: a record
  whose scheduled-for value is missing is classified as unknown and is in none of the
  buckets of the result. (The bucketing of checkVaccines.js keeps it, in \<open>unknown\<close>.)
\<close>

theorem C9_part_001_drops_unclassifiable_record:
  "bucketScheduledVaccines_part_001 (fixedClock 0) [undatedDose] 0
     = (\<lparr>overdue_1 = [], upcoming_1 = [], needsAttention_1 = [], current_1 = []\<rparr>, 0)
   \<and> bucketScheduledVaccines (fixedClock 0) [undatedDose] 0
     = (\<lparr>overdue = [], upcoming = [], needsAttention = [], current = [],
         unknown = [\<lparr>vaccineId = JNum (Fin 3), animalId = JStr ''42'',
                     product = Some ''Bordetella'', manufacturer = Null, lot = Null,
                     scheduledFor = None, diffDays = None, status = Unknown\<rparr>]\<rparr>, 0)"
  by code_simp

text \<open>
  C7. \<^verbatim>\<open>classifyByDueWindow\<close> evaluates \<^verbatim>\<open>new Date()\<close> in its own body, so every classification
  call of a pass reads the clock anew. When all readings of a pass return the same
  instant, the result of a call does not depend on its position in the pass, and
  bucketing a feed in any order puts the same records, with the same statuses and day
  offsets, into each bucket.
\<close>

theorem C7_fixed_instant_order_independent:
  assumes "\<forall>j. clk j = now" and "mset ws = mset vs"
  shows "fst (classifyByDueWindow clk s k) = fst (classifyByDueWindow clk s k')
       \<and> mset (overdue (fst (bucketScheduledVaccines clk ws k')))
           = mset (overdue (fst (bucketScheduledVaccines clk vs k)))
       \<and> mset (needsAttention (fst (bucketScheduledVaccines clk ws k')))
           = mset (needsAttention (fst (bucketScheduledVaccines clk vs k)))
       \<and> mset (upcoming (fst (bucketScheduledVaccines clk ws k')))
           = mset (upcoming (fst (bucketScheduledVaccines clk vs k)))
       \<and> mset (current (fst (bucketScheduledVaccines clk ws k')))
           = mset (current (fst (bucketScheduledVaccines clk vs k)))
       \<and> mset (unknown (fst (bucketScheduledVaccines clk ws k')))
           = mset (unknown (fst (bucketScheduledVaccines clk vs k)))"
proof -
  from assms(1) have fixed: "\<And>j. clk j = now" by simp
  have same: "fst (classifyByDueWindow clk s k) = fst (classifyByDueWindow clk s k')"
    by (simp add: classify_fixedClock [OF fixed])
  show ?thesis
    unfolding bucket_fixedClock [OF fixed]
    using same assms(2) by simp
qed

theorem C7_witness:
  "(\<forall>j. fixedClock 500 j = 500) \<and> mset [doseB, doseA] = mset [doseA, doseB]
   \<and> mset (needsAttention (fst (bucketScheduledVaccines (fixedClock 500) [doseB, doseA] 7)))
       = mset (needsAttention (fst (bucketScheduledVaccines (fixedClock 500) [doseA, doseB] 0)))"
proof -
  have h1: "\<forall>j. fixedClock 500 j = 500" by (simp add: fixedClock_def)
  have h2: "mset [doseB, doseA] = mset [doseA, doseB]" by simp
  from C7_fixed_instant_order_independent [OF h1 h2] h1 h2 show ?thesis by blast
qed

text \<open>
  With a clock that advances between readings, two records with the same scheduled-for
  value get different day offsets and different statuses in one pass, and which of
  them is overdue depends on their order in the feed.
\<close>

theorem C7_counterexample:
  "map status (allVaccines (fst (bucketScheduledVaccines tickingClock [doseA, doseB] 0)))
     = [Overdue, NeedsAttention]
   \<and> map diffDays (allVaccines (fst (bucketScheduledVaccines tickingClock [doseA, doseB] 0)))
     = [Some (Fin (- 1 / 86400000)), Some (Fin 0)]
   \<and> map vaccineId (allVaccines (fst (bucketScheduledVaccines tickingClock [doseA, doseB] 0)))
     = [JNum (Fin 2), JNum (Fin 1)]
   \<and> map vaccineId (allVaccines (fst (bucketScheduledVaccines tickingClock [doseB, doseA] 0)))
     = [JNum (Fin 1), JNum (Fin 2)]"
  by code_simp

section \<open>Properties of the enrichment loop\<close>

lemma mset_enrichLoop:
  "mset (allVaccines (fst (enrichLoop clk vs d K k))) = mset (allVaccines d) + mset (enrichEach clk vs K k)"
proof -
  have "mset (allVaccines (fst (enrichLoop clk vs d K k)))
      = mset (allVaccines d)
        + (mset [x \<leftarrow> enrichEach clk vs K k. status x = Overdue]
           + mset [x \<leftarrow> enrichEach clk vs K k. status x = NeedsAttention]
           + mset [x \<leftarrow> enrichEach clk vs K k. status x = Upcoming]
           + mset [x \<leftarrow> enrichEach clk vs K k. status x = Current]
           + mset [x \<leftarrow> enrichEach clk vs K k. status x = Unknown])"
    by (simp add: mset_allVaccines_split enrichLoop_fields)
  then show ?thesis by (simp only: mset_by_status)
qed

lemma enrichEach_ids: "vaccineId ` set (enrichEach clk vs K k) = r_id ` set vs - K"
proof (induction vs arbitrary: K k)
  case Nil
  show ?case by simp
next
  case (Cons v vs)
  show ?case
  proof (cases "r_id v \<in> K")
    case True
    with Cons.IH [of K k] show ?thesis by auto
  next
    case False
    obtain c k' where ck: "classifyByDueWindow clk (r_scheduled_for v) k = (c, k')"
      by (cases "classifyByDueWindow clk (r_scheduled_for v) k")
    from False ck have "vaccineId ` set (enrichEach clk (v # vs) K k)
        = insert (r_id v) (vaccineId ` set (enrichEach clk vs (insert (r_id v) K) k'))"
      by simp
    also have "\<dots> = insert (r_id v) (r_id ` set vs - insert (r_id v) K)"
      by (simp only: Cons.IH)
    also have "\<dots> = r_id ` set (v # vs) - K"
      using False by auto
    finally show ?thesis .
  qed
qed

lemma enrichEach_distinct: "distinct (map vaccineId (enrichEach clk vs K k))"
proof (induction vs arbitrary: K k)
  case Nil
  show ?case by simp
next
  case (Cons v vs)
  show ?case
  proof (cases "r_id v \<in> K")
    case True
    with Cons.IH show ?thesis by simp
  next
    case False
    obtain c k' where ck: "classifyByDueWindow clk (r_scheduled_for v) k = (c, k')"
      by (cases "classifyByDueWindow clk (r_scheduled_for v) k")
    have "r_id v \<notin> vaccineId ` set (enrichEach clk vs (insert (r_id v) K) k')"
      by (simp add: enrichEach_ids)
    with False ck Cons.IH [of "insert (r_id v) K" k'] show ?thesis by simp
  qed
qed

lemma enrichLoop_all_known:
  assumes "r_id ` set vs \<subseteq> K"
  shows "enrichLoop clk vs d K k = (d, K, k)"
  using assms by (induction vs) simp_all

lemma enrichLoop_drop_known:
  assumes "K0 \<subseteq> K"
  shows "enrichLoop clk vs d K k = enrichLoop clk [v \<leftarrow> vs. r_id v \<notin> K0] d K k"
  using assms
proof (induction vs arbitrary: d K k)
  case Nil
  show ?case by simp
next
  case (Cons v vs)
  show ?case
  proof (cases "r_id v \<in> K")
    case True
    with Cons show ?thesis by simp
  next
    case False
    with Cons.prems have notin: "r_id v \<notin> K0" by auto
    obtain c k' where ck: "classifyByDueWindow clk (r_scheduled_for v) k = (c, k')"
      by (cases "classifyByDueWindow clk (r_scheduled_for v) k")
    have "K0 \<subseteq> insert (r_id v) K" using Cons.prems by auto
    from Cons.IH [OF this] False notin ck show ?thesis by simp
  qed
qed

lemma ids_allVaccines_enrichLoop:
  "vaccineId ` set (allVaccines (fst (enrichLoop clk vs d K k)))
     = vaccineId ` set (allVaccines d) \<union> (r_id ` set vs - K)"
proof -
  have "set (allVaccines (fst (enrichLoop clk vs d K k)))
      = set (allVaccines d) \<union> set (enrichEach clk vs K k)"
    by (metis mset_enrichLoop set_mset_mset set_mset_union)
  then show ?thesis by (simp add: image_Un enrichEach_ids)
qed

lemma fst_enrichDog:
  "fst (enrichDog clk vs d k) = fst (enrichLoop clk vs d (vaccineId ` set (allVaccines d)) k)"
  by (simp add: enrichDog_def split: prod.splits)

lemma enrichDog_fields:
  "overdue (fst (enrichDog clk vs d k)) = overdue d @ [x \<leftarrow> enrichEach clk vs (vaccineId ` set (allVaccines d)) k. status x = Overdue]"
  "needsAttention (fst (enrichDog clk vs d k)) = needsAttention d @ [x \<leftarrow> enrichEach clk vs (vaccineId ` set (allVaccines d)) k. status x = NeedsAttention]"
  "upcoming (fst (enrichDog clk vs d k)) = upcoming d @ [x \<leftarrow> enrichEach clk vs (vaccineId ` set (allVaccines d)) k. status x = Upcoming]"
  "current (fst (enrichDog clk vs d k)) = current d @ [x \<leftarrow> enrichEach clk vs (vaccineId ` set (allVaccines d)) k. status x = Current]"
  "unknown (fst (enrichDog clk vs d k)) = unknown d @ [x \<leftarrow> enrichEach clk vs (vaccineId ` set (allVaccines d)) k. status x = Unknown]"
  "buckets.more (fst (enrichDog clk vs d k)) = buckets.more d"
  unfolding fst_enrichDog by (rule enrichLoop_fields)+

lemma filter_id_added:
  assumes "i \<in> K"
  shows "[x \<leftarrow> [x \<leftarrow> enrichEach clk vs K k. P x]. vaccineId x = i] = []"
proof -
  have "\<forall>x \<in> set (enrichEach clk vs K k). vaccineId x \<noteq> i"
    using enrichEach_ids [of clk vs K k] assms by blast
  then show ?thesis by (simp add: filter_empty_conv)
qed

lemma rico_ids: "vaccineId ` set (allVaccines rico) = {JNum (Fin 1)}"
  by (simp add: rico_def allVaccines_def rabiesA_def)

lemma rico_enriched:
  "allVaccines (fst (enrichDog (fixedClock 0) feedB rico 0)) =
     [rabiesA,
      \<lparr>vaccineId = JNum (Fin 3), animalId = JStr ''42'', product = Some ''Bordetella'',
       manufacturer = Null, lot = Null,
       scheduledFor = None, diffDays = None, status = Unknown\<rparr>]"
  by code_simp

text \<open>
  C2. When an identifier of the dog's buckets (feed (a)) is met again in the per-animal
  feed (feed (b)), the feed-(b) record is discarded: in each bucket of the enriched dog
  the records with that identifier are exactly the ones the bucket held before, and the
  whole result is the one obtained from the feed with those records removed, whatever
  their fields.
\<close>

theorem C2_feed_a_version_retained:
  assumes "i \<in> vaccineId ` set (allVaccines d)"
  shows "[x \<leftarrow> overdue (fst (enrichDog clk perAnimalVaccines d k)). vaccineId x = i]
           = [x \<leftarrow> overdue d. vaccineId x = i]
       \<and> [x \<leftarrow> needsAttention (fst (enrichDog clk perAnimalVaccines d k)). vaccineId x = i]
           = [x \<leftarrow> needsAttention d. vaccineId x = i]
       \<and> [x \<leftarrow> upcoming (fst (enrichDog clk perAnimalVaccines d k)). vaccineId x = i]
           = [x \<leftarrow> upcoming d. vaccineId x = i]
       \<and> [x \<leftarrow> current (fst (enrichDog clk perAnimalVaccines d k)). vaccineId x = i]
           = [x \<leftarrow> current d. vaccineId x = i]
       \<and> [x \<leftarrow> unknown (fst (enrichDog clk perAnimalVaccines d k)). vaccineId x = i]
           = [x \<leftarrow> unknown d. vaccineId x = i]
       \<and> enrichDog clk perAnimalVaccines d k
           = enrichDog clk [v \<leftarrow> perAnimalVaccines. r_id v \<noteq> i] d k"
proof -
  have drop: "enrichDog clk perAnimalVaccines d k
           = enrichDog clk [v \<leftarrow> perAnimalVaccines. r_id v \<noteq> i] d k"
    using enrichLoop_drop_known [of "{i}" "vaccineId ` set (allVaccines d)" clk perAnimalVaccines d k]
      assms by (simp add: enrichDog_def)
  have kept:
    "[x \<leftarrow> overdue (fst (enrichDog clk perAnimalVaccines d k)). vaccineId x = i]
       = [x \<leftarrow> overdue d. vaccineId x = i]"
    "[x \<leftarrow> needsAttention (fst (enrichDog clk perAnimalVaccines d k)). vaccineId x = i]
       = [x \<leftarrow> needsAttention d. vaccineId x = i]"
    "[x \<leftarrow> upcoming (fst (enrichDog clk perAnimalVaccines d k)). vaccineId x = i]
       = [x \<leftarrow> upcoming d. vaccineId x = i]"
    "[x \<leftarrow> current (fst (enrichDog clk perAnimalVaccines d k)). vaccineId x = i]
       = [x \<leftarrow> current d. vaccineId x = i]"
    "[x \<leftarrow> unknown (fst (enrichDog clk perAnimalVaccines d k)). vaccineId x = i]
       = [x \<leftarrow> unknown d. vaccineId x = i]"
    unfolding enrichDog_fields filter_append filter_id_added [OF assms] by simp_all
  from kept drop show ?thesis
    by blast
qed

theorem C2_witness:
  "JNum (Fin 1) \<in> vaccineId ` set (allVaccines rico)
   \<and> [x \<leftarrow> overdue (fst (enrichDog (fixedClock 0) feedB rico 0)). vaccineId x = JNum (Fin 1)]
       = [rabiesA]
   \<and> enrichDog (fixedClock 0) feedB rico 0
       = enrichDog (fixedClock 0) [v \<leftarrow> feedB. r_id v \<noteq> JNum (Fin 1)] rico 0"
proof -
  have known: "JNum (Fin 1) \<in> vaccineId ` set (allVaccines rico)"
    by (simp add: rico_ids)
  have before: "[x \<leftarrow> overdue rico. vaccineId x = JNum (Fin 1)] = [rabiesA]"
    by (simp add: rico_def rabiesA_def)
  note retained = C2_feed_a_version_retained [OF known, of "fixedClock 0" feedB 0]
  from retained have kept:
    "[x \<leftarrow> overdue (fst (enrichDog (fixedClock 0) feedB rico 0)). vaccineId x = JNum (Fin 1)]
       = [x \<leftarrow> overdue rico. vaccineId x = JNum (Fin 1)]"
    by blast
  from retained have dropped:
    "enrichDog (fixedClock 0) feedB rico 0
       = enrichDog (fixedClock 0) [v \<leftarrow> feedB. r_id v \<noteq> JNum (Fin 1)] rico 0"
    by blast
  from known kept [unfolded before] dropped show ?thesis
    by blast
qed

text \<open>
  C6. Enriching the enriched dog with the same per-animal feed again changes nothing and
  reads no clock: every identifier of the feed is known after the first pass. After one
  pass an identifier of feed (a) is on as many records as before, and any other
  identifier of feed (b) is on exactly one record.
\<close>

theorem C6_reconciliation_idempotent:
  "enrichDog clk' perAnimalVaccines (fst (enrichDog clk perAnimalVaccines d k)) k'
     = (fst (enrichDog clk perAnimalVaccines d k), k')
   \<and> count (mset (map vaccineId (allVaccines (fst (enrichDog clk perAnimalVaccines d k))))) i
     = (if i \<in> vaccineId ` set (allVaccines d)
        then count (mset (map vaccineId (allVaccines d))) i
        else if i \<in> r_id ` set perAnimalVaccines then 1 else 0)"
proof -
  let ?K = "vaccineId ` set (allVaccines d)"
  let ?d' = "fst (enrichDog clk perAnimalVaccines d k)"
  have d'_eq: "?d' = fst (enrichLoop clk perAnimalVaccines d ?K k)"
    by (simp add: enrichDog_def split: prod.splits)
  have ids': "vaccineId ` set (allVaccines ?d') = ?K \<union> (r_id ` set perAnimalVaccines - ?K)"
    unfolding d'_eq by (rule ids_allVaccines_enrichLoop)
  then have "r_id ` set perAnimalVaccines \<subseteq> vaccineId ` set (allVaccines ?d')"
    by blast
  then have again: "enrichDog clk' perAnimalVaccines ?d' k' = (?d', k')"
    by (simp add: enrichDog_def enrichLoop_all_known)
  have ms: "mset (map vaccineId (allVaccines ?d'))
      = mset (map vaccineId (allVaccines d))
        + mset (map vaccineId (enrichEach clk perAnimalVaccines ?K k))"
  proof -
    have "image_mset vaccineId (mset (allVaccines ?d'))
        = image_mset vaccineId
            (mset (allVaccines d) + mset (enrichEach clk perAnimalVaccines ?K k))"
      unfolding d'_eq by (simp only: mset_enrichLoop)
    then show ?thesis by simp
  qed
  have added: "count (mset (map vaccineId (enrichEach clk perAnimalVaccines ?K k))) i
      = (if i \<in> r_id ` set perAnimalVaccines - ?K then 1 else 0)"
    using enrichEach_distinct [of clk perAnimalVaccines ?K k]
      enrichEach_ids [of clk perAnimalVaccines ?K k]
    by (simp add: distinct_count_atmost_1)
  have known: "i \<notin> ?K \<Longrightarrow> count (mset (map vaccineId (allVaccines d))) i = 0"
    by (simp add: count_eq_zero_iff)
  from again ms added known show ?thesis
    by auto
qed

theorem C6_witness:
  "enrichDog tickingClock feedB (fst (enrichDog (fixedClock 0) feedB rico 0)) 5
     = (fst (enrichDog (fixedClock 0) feedB rico 0), 5)
   \<and> count (mset (map vaccineId (allVaccines (fst (enrichDog (fixedClock 0) feedB rico 0)))))
        (JNum (Fin 3)) = 1"
  using C6_reconciliation_idempotent [of tickingClock feedB "fixedClock 0" rico 0 5 "JNum (Fin 3)"]
  by (simp add: rico_ids feedB_def undatedDose_def rawOf_def)

section \<open>Properties of the status line\<close>

lemma js_lt_irrefl [simp]: "\<not> js_lt a a"
  by (cases a) simp_all

lemma js_lt_trans: "js_lt a b \<Longrightarrow> js_lt b c \<Longrightarrow> js_lt a c"
  by (cases a; cases b; cases c) simp_all

lemma js_lt_total: "a \<noteq> NaN \<Longrightarrow> b \<noteq> NaN \<Longrightarrow> js_lt a b \<or> a = b \<or> js_lt b a"
  by (cases a; cases b) auto

lemma scheduledTime_NaN_iff: "scheduledTime v = NaN \<longleftrightarrow> scheduledFor v = Some InvalidDate"
proof (cases "scheduledFor v")
  case None
  then show ?thesis by (simp add: scheduledTime_def)
next
  case (Some date)
  then show ?thesis by (cases date) (simp_all add: scheduledTime_def)
qed

lemma foldl_sooner_firstMinimum:
  assumes "list_all (\<lambda>v. scheduledFor v \<noteq> Some InvalidDate) (a # rest)"
  shows "firstMinimum (foldl sooner a rest) (a # rest)"
  using assms
proof (induction rest rule: rev_induct)
  case Nil
  show ?case
    unfolding firstMinimum_def by (rule exI [of _ "[]"], rule exI [of _ "[]"]) simp
next
  case (snoc x xs)
  let ?r = "foldl sooner a xs"
  from snoc.prems have valid: "list_all (\<lambda>v. scheduledFor v \<noteq> Some InvalidDate) (a # xs)"
    and xvalid: "scheduledFor x \<noteq> Some InvalidDate"
    by simp_all
  from snoc.IH [OF valid] obtain pre post where
    split: "a # xs = pre @ ?r # post"
    and pre: "list_all (\<lambda>v. js_lt (scheduledTime ?r) (scheduledTime v)) pre"
    and post: "list_all (\<lambda>v. \<not> js_lt (scheduledTime v) (scheduledTime ?r)) post"
    unfolding firstMinimum_def by blast
  have nonan: "\<forall>v \<in> set (a # xs). scheduledTime v \<noteq> NaN"
    using valid by (simp add: scheduledTime_NaN_iff list_all_iff)
  have xnonan: "scheduledTime x \<noteq> NaN"
    using xvalid by (simp add: scheduledTime_NaN_iff)
  have rmin: "\<forall>v \<in> set (a # xs). \<not> js_lt (scheduledTime v) (scheduledTime ?r)"
  proof
    fix v assume "v \<in> set (a # xs)"
    then have "v \<in> set pre \<or> v = ?r \<or> v \<in> set post"
      unfolding split by auto
    then show "\<not> js_lt (scheduledTime v) (scheduledTime ?r)"
      using pre post js_lt_trans [of "scheduledTime v" "scheduledTime ?r" "scheduledTime v"]
      by (auto simp: list_all_iff)
  qed
  show ?case
  proof (cases "js_lt (scheduledTime x) (scheduledTime ?r)")
    case True
    then have res: "foldl sooner a (xs @ [x]) = x"
      by (simp add: sooner_def Let_def)
    have "\<forall>v \<in> set (a # xs). js_lt (scheduledTime x) (scheduledTime v)"
    proof
      fix v assume v: "v \<in> set (a # xs)"
      with rmin have "\<not> js_lt (scheduledTime v) (scheduledTime ?r)" by blast
      moreover have "scheduledTime v \<noteq> NaN" using nonan v by blast
      moreover have "?r \<in> set (a # xs)" unfolding split by simp
      then have "scheduledTime ?r \<noteq> NaN" using nonan by blast
      ultimately have "js_lt (scheduledTime ?r) (scheduledTime v) \<or> scheduledTime ?r = scheduledTime v"
        using js_lt_total by blast
      with True show "js_lt (scheduledTime x) (scheduledTime v)"
        using js_lt_trans by metis
    qed
    then show ?thesis
      unfolding firstMinimum_def res
      by (intro exI [of _ "a # xs"] exI [of _ "[]"]) (simp add: list_all_iff)
  next
    case False
    then have res: "foldl sooner a (xs @ [x]) = ?r"
      by (simp add: sooner_def Let_def)
    show ?thesis
      unfolding firstMinimum_def res
      using split pre post False
      by (intro exI [of _ pre] exI [of _ "post @ [x]"]) simp
  qed
qed

lemma soonestForType_firstMinimum:
  assumes "vaccinesForType d key \<noteq> []"
    and "list_all (\<lambda>v. scheduledFor v \<noteq> Some InvalidDate) (vaccinesForType d key)"
  shows "\<exists>r. soonestForType d key = Some r \<and> firstMinimum r (vaccinesForType d key)"
proof (cases "vaccinesForType d key")
  case Nil
  with assms(1) show ?thesis by simp
next
  case (Cons a rest)
  with assms(2) foldl_sooner_firstMinimum [of a rest] show ?thesis
    by (simp add: soonestForType_def)
qed

lemma firstMinimum_dateless:
  assumes "firstMinimum r vs" and "scheduledFor r = None"
    and "list_all (\<lambda>v. scheduledFor v \<noteq> Some InvalidDate) vs"
  shows "list_all (\<lambda>v. scheduledFor v = None) vs"
proof -
  from assms(1) obtain pre post where
    split: "vs = pre @ r # post"
    and pre: "list_all (\<lambda>v. js_lt (scheduledTime r) (scheduledTime v)) pre"
    and post: "list_all (\<lambda>v. \<not> js_lt (scheduledTime v) (scheduledTime r)) post"
    unfolding firstMinimum_def by blast
  have r: "scheduledTime r = PosInf"
    using assms(2) by (simp add: scheduledTime_def)
  have "pre = []"
  proof (cases pre)
    case Nil
    then show ?thesis .
  next
    case (Cons v pre')
    with pre r have "js_lt PosInf (scheduledTime v)" by simp
    then show ?thesis by simp
  qed
  moreover have "scheduledFor v = None" if "v \<in> set post" for v
  proof (cases "scheduledFor v")
    case None
    then show ?thesis .
  next
    case (Some date)
    from that assms(3) split have "scheduledFor v \<noteq> Some InvalidDate"
      by (simp add: list_all_iff)
    with Some obtain t where "date = ValidDate t" by (cases date) simp_all
    with Some have "js_lt (scheduledTime v) PosInf" by (simp add: scheduledTime_def)
    moreover from that post r have "\<not> js_lt (scheduledTime v) PosInf"
      by (simp add: list_all_iff)
    ultimately show ?thesis by simp
  qed
  ultimately show ?thesis
    using split assms(2) by (simp add: list_all_iff)
qed

text \<open>
  When no candidate of a family carries an invalid date, the record picked for the
  family is the first one with the smallest scheduled-for time, a missing date counting
  as \<open>+infinity\<close>; it is dateless only when every candidate is.
\<close>

lemma soonestForType_dated_first:
  assumes "soonestForType d key = Some r" and "scheduledFor r = None"
    and "list_all (\<lambda>v. scheduledFor v \<noteq> Some InvalidDate) (vaccinesForType d key)"
  shows "list_all (\<lambda>v. scheduledFor v = None) (vaccinesForType d key)"
proof -
  from assms(1) have "vaccinesForType d key \<noteq> []"
    by (auto simp: soonestForType_def)
  from soonestForType_firstMinimum [OF this assms(3)] assms(1)
  have "firstMinimum r (vaccinesForType d key)" by simp
  from firstMinimum_dateless [OF this assms(2,3)] show ?thesis .
qed

text \<open>
  C3. A record whose scheduled-for value is a finite number beyond the range of \<^verbatim>\<open>Date\<close>
  carries an invalid date: a truthy object whose time is \<open>NaN\<close>, not \<open>+infinity\<close>. Every
  comparison with \<open>NaN\<close> is false, so once such a record is the accumulator of \<^verbatim>\<open>reduce\<close> it
  is never replaced. Here the feed lists it before a rabies dose dated February 2026:
  both are current, the record without an instant is the one picked, and
  checkVaccines.js then fails in \<^verbatim>\<open>toISOString\<close>, while the variant \<open>part_000\<close> words it as due
  \<^verbatim>\<open>in NaN days\<close> on an unknown date.
\<close>

theorem C3_invalid_date_outranks_dated_record:
  "vaccinesForType
     (fst (bucketScheduledVaccines (fixedClock 1764576000000) [farDose, febDose] 0)) Rabies
     = [\<lparr>vaccineId = JNum (Fin 4), animalId = JStr ''42'', product = Some ''Rabies'',
         manufacturer = Null, lot = Null, scheduledFor = Some InvalidDate,
         diffDays = Some NaN, status = Current\<rparr>,
        \<lparr>vaccineId = JNum (Fin 5), animalId = JStr ''42'', product = Some ''Rabies'',
         manufacturer = Null, lot = Null, scheduledFor = Some (ValidDate 1770000000000),
         diffDays = Some (Fin (565 / 9)), status = Current\<rparr>]
   \<and> soonestForType
       (fst (bucketScheduledVaccines (fixedClock 1764576000000) [farDose, febDose] 0)) Rabies
     = Some \<lparr>vaccineId = JNum (Fin 4), animalId = JStr ''42'', product = Some ''Rabies'',
         manufacturer = Null, lot = Null, scheduledFor = Some InvalidDate,
         diffDays = Some NaN, status = Current\<rparr>
   \<and> coreTypeStatus
       (fst (bucketScheduledVaccines (fixedClock 1764576000000) [farDose, febDose] 0))
       Rabies ''Rabies'' = Inl RangeError
   \<and> map_option nextDose_part_000
       (soonestForType
          (fst (bucketScheduledVaccines (fixedClock 1764576000000) [farDose, febDose] 0)) Rabies)
     = Some (K_current,
             [Lit ''Next dose: '', Lit ''in '', NumStr NaN, Lit '' day'', Lit ''s'',
              Lit '' '', Lit enDash, Lit '' '', DateStr UnknownDate])"
  by code_simp

lemma renderedCounts_append [simp]:
  "renderedCounts (ps @ qs) = renderedCounts ps @ renderedCounts qs"
  by (induction ps rule: renderedCounts.induct) simp_all

lemma counts_overdueExtra [simp]:
  "renderedCounts (overdueExtra (Some n)) = [n]"
  "renderedCounts (overdueExtra_part_000 (Some n)) = [n]"
  by (simp_all add: overdueExtra_def overdueExtra_part_000_def)

lemma counts_aheadExtra [simp]:
  "renderedCounts (aheadExtra (Some n)) = [n]"
  "renderedCounts (aheadExtra_part_000 (Some n) w) = [n]"
  by (simp_all add: aheadExtra_def aheadExtra_part_000_def)

lemma soonestStatus_overdue:
  assumes "status r = Overdue" and "diffDays r = Some x" and "scheduledFor r \<noteq> Some InvalidDate"
  shows "\<exists>text. soonestStatus r = Inr (K_overdue, text)
           \<and> renderedCounts text = [js_floor (js_abs x)]"
    and "fst (nextDose_part_000 r) = K_overdue"
    and "renderedCounts (snd (nextDose_part_000 r)) = [js_floor (js_abs x)]"
  using assms
  by (auto simp: soonestStatus_def nextDose_part_000_def isoDateStr_def Let_def
      split: option.splits js_date.splits)

lemma soonestStatus_ahead:
  assumes "status r = NeedsAttention \<or> status r = Upcoming \<or> status r = Current"
    and "diffDays r = Some x" and "scheduledFor r \<noteq> Some InvalidDate"
  shows "\<exists>key text. soonestStatus r = Inr (key, text)
           \<and> (key = K_needsAttention \<or> key = K_upcoming \<or> key = K_current)
           \<and> renderedCounts text = [js_ceil x]"
    and "renderedCounts (snd (nextDose_part_000 r)) = [js_ceil x]"
  using assms
  by (auto simp: soonestStatus_def nextDose_part_000_def isoDateStr_def Let_def
      split: option.splits js_date.splits)

lemma twoWeekDose_date:
  "unixStringToDate (r_scheduled_for twoWeekDose) = Some (ValidDate 1209600000)"
  by code_simp

lemma twoWeekDose_offsets:
  "\<lceil>dayOffset 1209600000 (fixedClock 0 0)\<rceil> = 14"
  "\<lfloor>\<bar>dayOffset 1209600000 (fixedClock 1252800000 0)\<bar>\<rfloor> = 0"
  "\<lceil>dayOffset 1209600000 (fixedClock 1209600000 0)\<rceil> = 0"
  by code_simp+

text \<open>
  C8. For a record whose scheduled-for value resolves to an instant, classified at the
  clock reading \<open>now\<close> with day offset \<open>d\<close>: when it is overdue the status line shows the
  one number \<open>floor \<bar>d\<bar>\<close>, which is \<open>0\<close> exactly when \<open>\<bar>d\<bar> < 1\<close>; otherwise its status is one
  of the three forward-looking ones and the line shows the one number \<open>ceil d\<close>, which is
  at least \<open>1\<close> when the record is due after \<open>now\<close> and \<open>0\<close> when it is due exactly at \<open>now\<close>.
  This holds for the wording of checkVaccines.js and for that of the variant \<open>part_000\<close>.
\<close>

theorem C8_rendered_day_counts:
  assumes "unixStringToDate (r_scheduled_for v) = Some (ValidDate t)"
  shows "(t < clk k \<longrightarrow>
            (\<exists>text. soonestStatus (normalizedVaccine v (fst (classifyByDueWindow clk (r_scheduled_for v) k)))
                      = Inr (K_overdue, text)
                   \<and> renderedCounts text = [Fin (of_int \<lfloor>\<bar>dayOffset t (clk k)\<bar>\<rfloor>)])
            \<and> renderedCounts (snd (nextDose_part_000
                  (normalizedVaccine v (fst (classifyByDueWindow clk (r_scheduled_for v) k)))))
                = [Fin (of_int \<lfloor>\<bar>dayOffset t (clk k)\<bar>\<rfloor>)]
            \<and> (\<lfloor>\<bar>dayOffset t (clk k)\<bar>\<rfloor> = 0 \<longleftrightarrow> \<bar>dayOffset t (clk k)\<bar> < 1))
       \<and> (clk k \<le> t \<longrightarrow>
            (\<exists>key text. soonestStatus (normalizedVaccine v (fst (classifyByDueWindow clk (r_scheduled_for v) k)))
                      = Inr (key, text)
                   \<and> (key = K_needsAttention \<or> key = K_upcoming \<or> key = K_current)
                   \<and> renderedCounts text = [Fin (of_int \<lceil>dayOffset t (clk k)\<rceil>)])
            \<and> renderedCounts (snd (nextDose_part_000
                  (normalizedVaccine v (fst (classifyByDueWindow clk (r_scheduled_for v) k)))))
                = [Fin (of_int \<lceil>dayOffset t (clk k)\<rceil>)])
       \<and> (clk k < t \<longrightarrow> 1 \<le> \<lceil>dayOffset t (clk k)\<rceil>)
       \<and> (clk k = t \<longrightarrow> \<lceil>dayOffset t (clk k)\<rceil> = 0)"
proof -
  let ?d = "dayOffset t (clk k)"
  let ?r = "normalizedVaccine v (fst (classifyByDueWindow clk (r_scheduled_for v) k))"
  have st: "status ?r = windowOfOffset ?d"
    and dd: "diffDays ?r = Some (Fin ?d)"
    and sf: "scheduledFor ?r \<noteq> Some InvalidDate"
    by (simp_all add: classify_valid [OF assms] normalizedVaccine_def)
  have neg: "t < clk k \<longleftrightarrow> ?d < 0" and pos: "clk k < t \<longleftrightarrow> 0 < ?d"
    and zero: "clk k = t \<longleftrightarrow> ?d = 0"
    by (auto simp: dayOffset_def divide_less_0_iff zero_less_divide_iff)
  have over: "t < clk k \<longrightarrow>
            (\<exists>text. soonestStatus ?r = Inr (K_overdue, text)
                   \<and> renderedCounts text = [Fin (of_int \<lfloor>\<bar>?d\<bar>\<rfloor>)])
            \<and> renderedCounts (snd (nextDose_part_000 ?r)) = [Fin (of_int \<lfloor>\<bar>?d\<bar>\<rfloor>)]"
  proof
    assume "t < clk k"
    with neg st have "status ?r = Overdue" by (simp add: windowOfOffset_def)
    from soonestStatus_overdue(1,3) [OF this dd sf]
    show "(\<exists>text. soonestStatus ?r = Inr (K_overdue, text)
                   \<and> renderedCounts text = [Fin (of_int \<lfloor>\<bar>?d\<bar>\<rfloor>)])
            \<and> renderedCounts (snd (nextDose_part_000 ?r)) = [Fin (of_int \<lfloor>\<bar>?d\<bar>\<rfloor>)]"
      by simp
  qed
  have ahead: "clk k \<le> t \<longrightarrow>
            (\<exists>key text. soonestStatus ?r = Inr (key, text)
                   \<and> (key = K_needsAttention \<or> key = K_upcoming \<or> key = K_current)
                   \<and> renderedCounts text = [Fin (of_int \<lceil>?d\<rceil>)])
            \<and> renderedCounts (snd (nextDose_part_000 ?r)) = [Fin (of_int \<lceil>?d\<rceil>)]"
  proof
    assume "clk k \<le> t"
    with neg have "0 \<le> ?d" by auto
    with st have "status ?r = NeedsAttention \<or> status ?r = Upcoming \<or> status ?r = Current"
      by (simp add: windowOfOffset_def)
    from soonestStatus_ahead [OF this dd sf]
    show "(\<exists>key text. soonestStatus ?r = Inr (key, text)
                   \<and> (key = K_needsAttention \<or> key = K_upcoming \<or> key = K_current)
                   \<and> renderedCounts text = [Fin (of_int \<lceil>?d\<rceil>)])
            \<and> renderedCounts (snd (nextDose_part_000 ?r)) = [Fin (of_int \<lceil>?d\<rceil>)]"
      by simp
  qed
  have floor0: "\<lfloor>\<bar>?d\<bar>\<rfloor> = 0 \<longleftrightarrow> \<bar>?d\<bar> < 1"
    by (simp add: floor_eq_iff)
  have ceil1: "clk k < t \<longrightarrow> 1 \<le> \<lceil>?d\<rceil>"
    using pos by (simp add: less_ceiling_iff flip: zless_iff_Suc_zadd int_one_le_iff_zero_less)
  have ceil0: "clk k = t \<longrightarrow> \<lceil>?d\<rceil> = 0"
    using zero by simp
  from over ahead floor0 ceil1 ceil0 show ?thesis
    by blast
qed

theorem C8_witness:
  "unixStringToDate (r_scheduled_for twoWeekDose) = Some (ValidDate 1209600000)
   \<and> fixedClock 0 0 < 1209600000
   \<and> renderedCounts (snd (nextDose_part_000
         (normalizedVaccine twoWeekDose
            (fst (classifyByDueWindow (fixedClock 0) (r_scheduled_for twoWeekDose) 0)))))
       = [Fin 14]
   \<and> 1209600000 < fixedClock 1252800000 0
   \<and> renderedCounts (snd (nextDose_part_000
         (normalizedVaccine twoWeekDose
            (fst (classifyByDueWindow (fixedClock 1252800000) (r_scheduled_for twoWeekDose) 0)))))
       = [Fin 0]
   \<and> fixedClock 1209600000 0 = 1209600000
   \<and> renderedCounts (snd (nextDose_part_000
         (normalizedVaccine twoWeekDose
            (fst (classifyByDueWindow (fixedClock 1209600000) (r_scheduled_for twoWeekDose) 0)))))
       = [Fin 0]"
proof -
  have later: "fixedClock 0 0 < 1209600000"
    and earlier: "1209600000 < fixedClock 1252800000 0"
    and same: "fixedClock 1209600000 0 = 1209600000"
    by (simp_all add: fixedClock_def)
  from C8_rendered_day_counts [OF twoWeekDose_date, of "fixedClock 0" 0]
    C8_rendered_day_counts [OF twoWeekDose_date, of "fixedClock 1252800000" 0]
    C8_rendered_day_counts [OF twoWeekDose_date, of "fixedClock 1209600000" 0]
    later earlier same twoWeekDose_date
  show ?thesis
    by (simp add: twoWeekDose_offsets)
qed

end
